theory Spec2Isabelle
  imports Complex_Main "HOL-Library.Word"
begin

section \<open>DeepMoon: coordinate transforms and the crater dataset\<close>

text \<open>
  The development embeds \<^verbatim>\<open>src/deepmoon/coord/transformation.py\<close> and, of the class
  \<^verbatim>\<open>MoonCrater\<close> in \<^verbatim>\<open>src/deepmoon/learning/moondata.py\<close>, the constructor and
  \<^verbatim>\<open>__len__\<close>.

  The three functions of \<^verbatim>\<open>transformation.py\<close> are compiled with \<^verbatim>\<open>@njit\<close>, and the model
  is the compiled function on scalar arguments:
  \<^item> a Python \<^verbatim>\<open>int\<close> argument is a signed 64-bit integer, and \<^verbatim>\<open>-\<close> and \<^verbatim>\<open>*\<close> between two
    of them wrap around; an \<^verbatim>\<open>int\<close> outside the signed 64-bit range is not such an
    argument and is outside the model;
  \<^item> a Python \<^verbatim>\<open>float\<close> is a real number: the rounding of IEEE doubles (also when an
    \<^verbatim>\<open>int\<close> is converted to a \<^verbatim>\<open>float\<close>), overflow to \<^verbatim>\<open>inf\<close>, and \<^verbatim>\<open>nan\<close> are outside the
    model, and \<^verbatim>\<open>np.pi\<close> is \<^term>\<open>pi\<close>;
  \<^item> \<^verbatim>\<open>-\<close> and \<^verbatim>\<open>*\<close> with a \<^verbatim>\<open>float\<close> operand, and \<^verbatim>\<open>/\<close> always, are \<^verbatim>\<open>float\<close> operations;
  \<^item> \<^verbatim>\<open>/\<close> with a zero divisor raises \<^verbatim>\<open>ZeroDivisionError\<close> (no \<^verbatim>\<open>error_model\<close> is given
    to \<^verbatim>\<open>@njit\<close>, which keeps Python's behaviour for scalar division);
  \<^item> \<^verbatim>\<open>coord_lim\<close> is a sequence of the four documented limits and \<^verbatim>\<open>imgdim\<close> one of the
    two documented dimensions, each element an \<^verbatim>\<open>int\<close> or a \<^verbatim>\<open>float\<close>; shorter or empty
    sequences, which the compiled function refuses or reads in ways that depend on
    the container, are outside the model, as is the element-wise \<^verbatim>\<open>ndarray\<close> mode.
\<close>

subsection \<open>Exceptions as values\<close>

datatype py_error =
    ZeroDivisionError
  | AssertionError
  | KeyError
  | TypeError
  | ValueError
  | OSError

type_synonym 'a result = "py_error + 'a"

text \<open>Sequencing: an exception raised by the first computation ends the whole one.\<close>

definition py_bind :: "'a result \<Rightarrow> ('a \<Rightarrow> 'b result) \<Rightarrow> 'b result" where
  "py_bind m f = (case m of Inl e \<Rightarrow> Inl e | Inr v \<Rightarrow> f v)"

text \<open>\<^verbatim>\<open>a / b\<close> on two floats.\<close>

definition py_div :: "real \<Rightarrow> real \<Rightarrow> real result" where
  "py_div a b = (if b = 0 then Inl ZeroDivisionError else Inr (a / b))"

text \<open>
  A parameter with a default value: \<^term>\<open>None\<close> is a call that omits the argument,
  \<^term>\<open>Some v\<close> a call that passes \<^term>\<open>v\<close>.
\<close>

definition arg_or :: "'a \<Rightarrow> 'a option \<Rightarrow> 'a" where
  "arg_or d a = (case a of None \<Rightarrow> d | Some v \<Rightarrow> v)"

subsection \<open>Scalars of the compiled functions\<close>

text \<open>A scalar is a 64-bit integer, read as two's complement, or a float.\<close>

datatype num = PyInt "64 word" | PyFloat real

fun num_real :: "num \<Rightarrow> real" where
  "num_real (PyInt i) = real_of_int (sint i)"
| "num_real (PyFloat r) = r"

text \<open>\<^verbatim>\<open>a - b\<close> and \<^verbatim>\<open>a * b\<close>: on two integers the 64-bit operation, else the float one.\<close>

fun num_sub :: "num \<Rightarrow> num \<Rightarrow> num" where
  "num_sub (PyInt a) (PyInt b) = PyInt (a - b)"
| "num_sub a b = PyFloat (num_real a - num_real b)"

fun num_mul :: "num \<Rightarrow> num \<Rightarrow> num" where
  "num_mul (PyInt a) (PyInt b) = PyInt (a * b)"
| "num_mul a b = PyFloat (num_real a * num_real b)"

text \<open>\<^verbatim>\<open>a / b\<close>: true division, a float also on two integers.\<close>

definition num_div :: "num \<Rightarrow> num \<Rightarrow> real result" where
  "num_div a b =
     (if num_real b = 0 then Inl ZeroDivisionError else Inr (num_real a / num_real b))"

subsection \<open>Coordinates to pixels\<close>

text \<open>
  \<^verbatim>\<open>def coord2pix(cx, cy, coord_lim, imgdim, origin="upper")\<close>. First
  \<^verbatim>\<open>x = imgdim[0] * (cx - coord_lim[0]) / (coord_lim[1] - coord_lim[0])\<close>, then \<^verbatim>\<open>y\<close>
  by the branch of the origin; both are floats.
\<close>

definition coord2pix ::
  "num \<Rightarrow> num \<Rightarrow> num \<times> num \<times> num \<times> num \<Rightarrow> num \<times> num \<Rightarrow> string option
     \<Rightarrow> (real \<times> real) result" where
  "coord2pix cx cy coord_lim imgdim origin =
     (case coord_lim of (l0, l1, l2, l3) \<Rightarrow>
      case imgdim of (d0, d1) \<Rightarrow>
        py_bind (num_div (num_mul d0 (num_sub cx l0)) (num_sub l1 l0)) (\<lambda>x.
        py_bind
          (if arg_or ''upper'' origin = ''lower'' then
             num_div (num_mul d1 (num_sub cy l2)) (num_sub l3 l2)
           else
             num_div (num_mul d1 (num_sub l3 cy)) (num_sub l3 l2))
          (\<lambda>y. Inr (x, y))))"

subsection \<open>Pixels to coordinates\<close>

text \<open>
  \<^verbatim>\<open>def pix2coord(x, y, coord_lim, imgdim, origin="upper")\<close>. First
  \<^verbatim>\<open>cx = (x / imgdim[0]) * (coord_lim[1] - coord_lim[0]) + coord_lim[0]\<close>, then \<^verbatim>\<open>cy\<close> by
  the branch of the origin. The quotient is a float, so the product and the sum are
  float operations; the difference of two integer limits is a 64-bit one.
\<close>

definition pix2coord ::
  "num \<Rightarrow> num \<Rightarrow> num \<times> num \<times> num \<times> num \<Rightarrow> num \<times> num \<Rightarrow> string option
     \<Rightarrow> (real \<times> real) result" where
  "pix2coord x y coord_lim imgdim origin =
     (case coord_lim of (l0, l1, l2, l3) \<Rightarrow>
      case imgdim of (d0, d1) \<Rightarrow>
        py_bind (num_div x d0) (\<lambda>qx.
        py_bind
          (if arg_or ''upper'' origin = ''lower'' then
             py_bind (num_div y d1) (\<lambda>qy.
             Inr (qy * num_real (num_sub l3 l2) + num_real l2))
           else
             py_bind (num_div y d1) (\<lambda>qy.
             Inr (num_real l3 - qy * num_real (num_sub l3 l2))))
          (\<lambda>cy. Inr (qx * num_real (num_sub l1 l0) + num_real l0, cy))))"

subsection \<open>Kilometres to pixels\<close>

text \<open>
  \<^verbatim>\<open>def km2pix(imgheight, latextent, dc=1., a=1737.4)\<close>, returning
  \<^verbatim>\<open>(180. / np.pi) * imgheight * dc / latextent / a\<close>: the product is divided by
  \<^verbatim>\<open>latextent\<close> first and by \<^verbatim>\<open>a\<close> second. The leading float makes every operation a
  float one, so an argument is its real value.
\<close>

definition km2pix :: "real \<Rightarrow> real \<Rightarrow> real option \<Rightarrow> real option \<Rightarrow> real result" where
  "km2pix imgheight latextent dc a =
     py_bind (py_div 180 pi) (\<lambda>k.
     py_bind (py_div (k * imgheight * arg_or 1 dc) latextent) (\<lambda>q.
     py_div q (arg_or 1737.4 a)))"

subsection \<open>Calls without integer overflow\<close>

text \<open>
  The conditions under which the 64-bit operations of a call compute the mathematical
  difference and product. An operation with a float operand always does.
\<close>

definition fits_int64 :: "int \<Rightarrow> bool" where
  "fits_int64 i \<longleftrightarrow> - (2 ^ 63) \<le> i \<and> i < 2 ^ 63"

fun sub_exact :: "num \<Rightarrow> num \<Rightarrow> bool" where
  "sub_exact (PyInt a) (PyInt b) = fits_int64 (sint a - sint b)"
| "sub_exact a b = True"

fun mul_exact :: "num \<Rightarrow> num \<Rightarrow> bool" where
  "mul_exact (PyInt a) (PyInt b) = fits_int64 (sint a * sint b)"
| "mul_exact a b = True"

text \<open>The operations of \<^verbatim>\<open>s * (a - b) / (hi - lo)\<close>.\<close>

definition affine_exact :: "num \<Rightarrow> num \<Rightarrow> num \<Rightarrow> num \<Rightarrow> num \<Rightarrow> bool" where
  "affine_exact s a b lo hi \<longleftrightarrow>
     sub_exact a b \<and> mul_exact s (num_sub a b) \<and> sub_exact hi lo"

text \<open>The operations of a call of \<open>coord2pix\<close>: those of \<^verbatim>\<open>x\<close> and of the branch taken.\<close>

definition coord2pix_exact ::
  "num \<Rightarrow> num \<Rightarrow> num \<times> num \<times> num \<times> num \<Rightarrow> num \<times> num \<Rightarrow> string option \<Rightarrow> bool" where
  "coord2pix_exact cx cy coord_lim imgdim origin =
     (case coord_lim of (l0, l1, l2, l3) \<Rightarrow>
      case imgdim of (d0, d1) \<Rightarrow>
        affine_exact d0 cx l0 l0 l1
        \<and> (if arg_or ''upper'' origin = ''lower'' then affine_exact d1 cy l2 l2 l3
           else affine_exact d1 l3 cy l2 l3))"

subsection \<open>Paths and the rendering of integers\<close>

text \<open>
  A \<^verbatim>\<open>pathlib.Path\<close> is the list of its components; \<^verbatim>\<open>p / name\<close> appends one
  component (every name the constructor appends is a single relative component).
\<close>

type_synonym path = "string list"

definition path_join :: "path \<Rightarrow> string \<Rightarrow> path" where
  "path_join p name = p @ [name]"

text \<open>
  \<^verbatim>\<open>f"{index}"\<close> for an \<^verbatim>\<open>int\<close>: the decimal digits, most significant first, after a
  minus sign when the number is negative.
\<close>

definition digit :: "nat \<Rightarrow> char" where
  "digit d = char_of (48 + d)"

function py_str_nat :: "nat \<Rightarrow> string" where
  "py_str_nat n = (if n < 10 then [digit n] else py_str_nat (n div 10) @ [digit (n mod 10)])"
  by pat_completeness auto
termination
  by (relation "measure id") auto

declare py_str_nat.simps [simp del]

definition py_str_int :: "int \<Rightarrow> string" where
  "py_str_int i = (if i < 0 then CHR ''-'' # py_str_nat (nat (- i)) else py_str_nat (nat i))"

subsection \<open>The host of the dataset: file system and JSON values\<close>

text \<open>
  The constructor of \<^verbatim>\<open>MoonCrater\<close> reads the world through four operations, which the
  model takes as a record of functions over any type \<^typ>\<open>'v\<close> of loaded JSON values:
  \<^item> \<open>is_file p\<close> is \<^verbatim>\<open>p.is_file()\<close>, which answers or raises (\<^verbatim>\<open>pathlib\<close> turns a
    missing file into \<^verbatim>\<open>False\<close>, and lets other failures of the system call, such as a
    refused permission, escape as \<^verbatim>\<open>OSError\<close>);
  \<^item> \<open>load_info p\<close> is \<^verbatim>\<open>list(json.load(f))\<close> for \<^verbatim>\<open>f\<close> the file \<^verbatim>\<open>p\<close> opened
    for reading, with whatever exception opening, parsing or \<^verbatim>\<open>list\<close> raises;
  \<^item> \<open>getitem v k\<close> is \<^verbatim>\<open>v[k]\<close> for a string key;
  \<^item> \<open>py_int v\<close> is \<^verbatim>\<open>int(v)\<close>.
  The file system does not change while the constructor runs.
\<close>

record 'v host =
  is_file :: "path \<Rightarrow> bool result"
  load_info :: "path \<Rightarrow> 'v list result"
  getitem :: "'v \<Rightarrow> string \<Rightarrow> 'v result"
  py_int :: "'v \<Rightarrow> int result"

subsection \<open>The dataset\<close>

text \<open>
  The attributes set by \<^verbatim>\<open>__init__\<close>. \<^verbatim>\<open>self.files\<close> is \<^verbatim>\<open>tuple(files)\<close> for a Python
  set \<^verbatim>\<open>files\<close>: each pair once, in an order the language does not fix. The model
  keeps the set.
\<close>

record 't MoonCrater =
  self_transform :: "'t option"
  self_img_size :: "int \<times> int"
  self_files :: "(path \<times> path) set"

text \<open>\<^verbatim>\<open>index = int(element["name"])\<close>\<close>

definition record_index :: "'v host \<Rightarrow> 'v \<Rightarrow> int result" where
  "record_index host element = py_bind (getitem host element ''name'') (py_int host)"

text \<open>\<^verbatim>\<open>root / f"{index}.png"\<close> and \<^verbatim>\<open>root / "mask" / f"{index}.png"\<close>\<close>

definition image_path :: "path \<Rightarrow> int \<Rightarrow> path" where
  "image_path root_path index = path_join root_path (py_str_int index @ ''.png'')"

definition mask_path :: "path \<Rightarrow> int \<Rightarrow> path" where
  "mask_path root_path index =
     path_join (path_join root_path ''mask'') (py_str_int index @ ''.png'')"

text \<open>
  The loop \<^verbatim>\<open>for element in info\<close>, with the set \<^verbatim>\<open>files\<close> as its state. In
  \<^verbatim>\<open>image.is_file() and mask.is_file()\<close> the mask is tested only when the image is a
  file.
\<close>

fun scan_info ::
  "'v host \<Rightarrow> path \<Rightarrow> 'v list \<Rightarrow> (path \<times> path) set \<Rightarrow> (path \<times> path) set result" where
  "scan_info host root_path [] files = Inr files"
| "scan_info host root_path (element # rest) files =
     py_bind (record_index host element) (\<lambda>index.
       let image = image_path root_path index;
           mask = mask_path root_path index
       in py_bind (is_file host image) (\<lambda>image_is_file.
          py_bind (if image_is_file then is_file host mask else Inr False) (\<lambda>both.
          if both
          then scan_info host root_path rest (insert (image, mask) files)
          else scan_info host root_path rest files)))"

text \<open>
  \<^verbatim>\<open>MoonCrater.__init__(self, root, transform=None, image_size=256)\<close>, with
  \<open>root_path\<close> the value of \<^verbatim>\<open>Path(root)\<close> and \<^verbatim>\<open>image_size\<close> an \<^verbatim>\<open>int\<close> when it
  is passed. The \<^verbatim>\<open>assert\<close> is checked, as in the interpreter's default mode. An
  exception leaves no object behind: the result is then \<^term>\<open>Inl e\<close>. The two
  attributes that the source sets before the assertion are set at the end here, which
  makes no difference to a caller.
\<close>

definition MoonCrater_init ::
  "'v host \<Rightarrow> path \<Rightarrow> 't option \<Rightarrow> int option \<Rightarrow> 't MoonCrater result" where
  "MoonCrater_init host root_path transform image_size =
     (let data_file = path_join root_path ''data_rec.json''
      in py_bind (is_file host data_file) (\<lambda>data_file_is_file.
         if \<not> data_file_is_file then Inl AssertionError
         else
           py_bind (load_info host data_file) (\<lambda>info.
           py_bind (scan_info host root_path info {}) (\<lambda>files.
           Inr \<lparr>self_transform = transform,
                self_img_size = (arg_or 256 image_size, arg_or 256 image_size),
                self_files = files\<rparr>))))"


text \<open>
  Names for the outcome of the loop's test on an index: both files exist; the tests
  the loop makes return an answer; and the pair the loop adds.
\<close>

definition both_exist :: "'v host \<Rightarrow> path \<Rightarrow> int \<Rightarrow> bool" where
  "both_exist host root_path index \<longleftrightarrow>
     is_file host (image_path root_path index) = Inr True
     \<and> is_file host (mask_path root_path index) = Inr True"

definition tests_return :: "'v host \<Rightarrow> path \<Rightarrow> int \<Rightarrow> bool" where
  "tests_return host root_path index \<longleftrightarrow>
     is_file host (image_path root_path index) = Inr False
     \<or> (is_file host (image_path root_path index) = Inr True
        \<and> \<not> isl (is_file host (mask_path root_path index)))"

definition pair_of :: "path \<Rightarrow> int \<Rightarrow> path \<times> path" where
  "pair_of root_path index = (image_path root_path index, mask_path root_path index)"

subsection \<open>A host with integer names\<close>

text \<open>
  JSON values built from integers and objects, with Python's behaviour on them:
  subscripting an \<^verbatim>\<open>int\<close> and converting a \<^verbatim>\<open>dict\<close> with \<^verbatim>\<open>int\<close> raise \<^verbatim>\<open>TypeError\<close>,
  a key that is absent raises \<^verbatim>\<open>KeyError\<close>. An object is the list of its entries, the
  first entry of a key being the one the \<^verbatim>\<open>dict\<close> holds.
\<close>

datatype jv = JInt int | JObj "(string \<times> jv) list"

fun jv_getitem :: "jv \<Rightarrow> string \<Rightarrow> jv result" where
  "jv_getitem (JObj kvs) key = (case map_of kvs key of None \<Rightarrow> Inl KeyError | Some v \<Rightarrow> Inr v)"
| "jv_getitem (JInt i) key = Inl TypeError"

fun jv_int :: "jv \<Rightarrow> int result" where
  "jv_int (JInt i) = Inr i"
| "jv_int (JObj kvs) = Inl TypeError"

text \<open>
  Four directories, and nothing else:
  \<^item> \<^verbatim>\<open>moon\<close> holds the manifest \<^verbatim>\<open>[{"name": 1}, {"name": 2}, {"name": 3}]\<close>, both files of
    record 1, the image of record 2 without its mask, and the mask of record 3 without
    its image;
  \<^item> \<^verbatim>\<open>twice\<close> holds the manifest \<^verbatim>\<open>[{"name": 1}, {"name": 1}]\<close> and both files of index 1;
  \<^item> \<^verbatim>\<open>guarded\<close> holds the manifest \<^verbatim>\<open>[{"name": 1}]\<close> and the image \<^verbatim>\<open>1.png\<close>, and the test
    of \<^verbatim>\<open>guarded/mask/1.png\<close> fails with \<^verbatim>\<open>OSError\<close> (the directory \<^verbatim>\<open>mask\<close> may not be
    searched);
  \<^item> \<^verbatim>\<open>locked\<close> may not be searched: the test of its manifest fails with \<^verbatim>\<open>OSError\<close>.
\<close>

definition example_host :: "jv host" where
  "example_host =
     \<lparr>is_file = (\<lambda>p.
        if p \<in> set [[''locked'', ''data_rec.json''], [''guarded'', ''mask'', ''1.png'']]
        then Inl OSError
        else Inr (p \<in> set [[''moon'', ''data_rec.json''],
                           [''moon'', ''1.png''], [''moon'', ''mask'', ''1.png''],
                           [''moon'', ''2.png''],
                           [''moon'', ''mask'', ''3.png''],
                           [''twice'', ''data_rec.json''],
                           [''twice'', ''1.png''], [''twice'', ''mask'', ''1.png''],
                           [''guarded'', ''data_rec.json''],
                           [''guarded'', ''1.png'']])),
      load_info = (\<lambda>p.
        if p = [''moon'', ''data_rec.json'']
        then Inr [JObj [(''name'', JInt 1)], JObj [(''name'', JInt 2)], JObj [(''name'', JInt 3)]]
        else if p = [''twice'', ''data_rec.json'']
        then Inr [JObj [(''name'', JInt 1)], JObj [(''name'', JInt 1)]]
        else if p = [''guarded'', ''data_rec.json'']
        then Inr [JObj [(''name'', JInt 1)]]
        else Inl OSError),
      getitem = jv_getitem,
      py_int = jv_int\<rparr>"

subsection \<open>A host with string names\<close>










section \<open>Properties of the coordinate transforms\<close>

subsection \<open>Evaluation rules\<close>

lemma py_bind_Inr: "py_bind (Inr v) f = f v"
  by (simp add: py_bind_def)

lemma py_bind_Inl: "py_bind (Inl e) f = Inl e"
  by (simp add: py_bind_def)

lemma arg_or_simps: "arg_or d None = d" "arg_or d (Some v) = v"
  by (simp_all add: arg_or_def)

subsection \<open>Exact and wrapping integer operations\<close>

lemma sint_sub_exact:
  fixes a b :: "64 word"
  assumes "fits_int64 (sint a - sint b)"
  shows "sint (a - b) = sint a - sint b"
  using assms by (simp add: sint_word_ariths fits_int64_def signed_take_bit_int_eq_self)

lemma sint_mul_exact:
  fixes a b :: "64 word"
  assumes "fits_int64 (sint a * sint b)"
  shows "sint (a * b) = sint a * sint b"
  using assms by (simp add: sint_word_ariths fits_int64_def signed_take_bit_int_eq_self)

lemma num_sub_exact: "sub_exact a b \<Longrightarrow> num_real (num_sub a b) = num_real a - num_real b"
  by (cases a; cases b) (simp_all add: sint_sub_exact)

lemma num_mul_exact: "mul_exact a b \<Longrightarrow> num_real (num_mul a b) = num_real a * num_real b"
  by (cases a; cases b) (simp_all add: sint_mul_exact)

lemma sint_sub_zero_iff:
  fixes a b :: "64 word"
  shows "(signed (a - b) :: real) = 0 \<longleftrightarrow> (signed a :: real) = signed b"
proof -
  have "(signed (a - b) :: real) = 0 \<longleftrightarrow> a - b = 0"
    by (rule signed_eq_0_iff)
  also have "\<dots> \<longleftrightarrow> a = b"
    by simp
  also have "\<dots> \<longleftrightarrow> (signed a :: real) = signed b"
    by (rule word_eq_iff_signed)
  finally show ?thesis .
qed

lemma num_sub_zero_iff: "num_real (num_sub a b) = 0 \<longleftrightarrow> num_real a = num_real b"
  by (cases a; cases b) (simp_all add: sint_sub_zero_iff)

text \<open>Float arguments and float limits never overflow, whatever the dimensions.\<close>

lemma coord2pix_exact_float:
  "coord2pix_exact (PyFloat cx) (PyFloat cy) (PyFloat x_min, PyFloat x_max, PyFloat y_min, PyFloat y_max)
     imgdim origin"
  by (cases imgdim) (simp add: coord2pix_exact_def affine_exact_def)

subsection \<open>The arithmetic of the two functions\<close>

lemma affine_value:
  assumes "affine_exact s a b lo hi" and "num_real lo \<noteq> num_real hi"
  shows "num_div (num_mul s (num_sub a b)) (num_sub hi lo) =
           Inr (num_real s * (num_real a - num_real b) / (num_real hi - num_real lo))"
proof -
  have d: "num_real (num_sub hi lo) = num_real hi - num_real lo"
    using assms(1) by (simp add: affine_exact_def num_sub_exact)
  have n: "num_real (num_mul s (num_sub a b)) = num_real s * (num_real a - num_real b)"
    using assms(1) by (simp add: affine_exact_def num_sub_exact num_mul_exact)
  show ?thesis
    using assms(2) by (simp add: num_div_def d n)
qed

lemma affine_zero:
  assumes "num_real lo \<noteq> num_real hi"
  shows "num_div (num_mul s (num_sub a a)) (num_sub hi lo) = Inr 0"
proof -
  have z: "num_real (num_mul s (num_sub a a)) = 0"
    by (cases s; cases a) simp_all
  have "num_real (num_sub hi lo) \<noteq> 0"
    using assms by (simp add: num_sub_zero_iff)
  then show ?thesis
    by (simp add: num_div_def z)
qed

lemma affine_raises:
  assumes "num_real lo = num_real hi"
  shows "num_div n (num_sub hi lo) = Inl ZeroDivisionError"
  using assms by (simp add: num_div_def num_sub_zero_iff)

lemma num_div_nonzero:
  "num_real lo \<noteq> num_real hi \<Longrightarrow> \<exists>v. num_div n (num_sub hi lo) = Inr v"
  by (simp add: num_div_def num_sub_zero_iff)

lemma coord2pix_quad:
  "coord2pix cx cy (x_min, x_max, y_min, y_max) (width, height) origin =
     py_bind (num_div (num_mul width (num_sub cx x_min)) (num_sub x_max x_min)) (\<lambda>x.
     py_bind (if arg_or ''upper'' origin = ''lower''
              then num_div (num_mul height (num_sub cy y_min)) (num_sub y_max y_min)
              else num_div (num_mul height (num_sub y_max cy)) (num_sub y_max y_min))
             (\<lambda>y. Inr (x, y)))"
  by (simp add: coord2pix_def)

lemma pix2coord_quad:
  "pix2coord x y (x_min, x_max, y_min, y_max) (width, height) origin =
     py_bind (num_div x width) (\<lambda>qx.
     py_bind (num_div y height) (\<lambda>qy.
     Inr (qx * num_real (num_sub x_max x_min) + num_real x_min,
          if arg_or ''upper'' origin = ''lower''
          then qy * num_real (num_sub y_max y_min) + num_real y_min
          else num_real y_max - qy * num_real (num_sub y_max y_min))))"
  by (cases "num_div y height") (simp_all add: pix2coord_def py_bind_def split: sum.splits)

lemma coord2pix_lower:
  assumes "num_real x_min \<noteq> num_real x_max" and "num_real y_min \<noteq> num_real y_max"
    and "arg_or ''upper'' origin = ''lower''"
    and "coord2pix_exact cx cy (x_min, x_max, y_min, y_max) (width, height) origin"
  shows "coord2pix cx cy (x_min, x_max, y_min, y_max) (width, height) origin =
           Inr (num_real width * (num_real cx - num_real x_min) / (num_real x_max - num_real x_min),
                num_real height * (num_real cy - num_real y_min) / (num_real y_max - num_real y_min))"
  using assms by (simp add: coord2pix_quad coord2pix_exact_def affine_value py_bind_Inr)

lemma coord2pix_upper:
  assumes "num_real x_min \<noteq> num_real x_max" and "num_real y_min \<noteq> num_real y_max"
    and "arg_or ''upper'' origin \<noteq> ''lower''"
    and "coord2pix_exact cx cy (x_min, x_max, y_min, y_max) (width, height) origin"
  shows "coord2pix cx cy (x_min, x_max, y_min, y_max) (width, height) origin =
           Inr (num_real width * (num_real cx - num_real x_min) / (num_real x_max - num_real x_min),
                num_real height * (num_real y_max - num_real cy) / (num_real y_max - num_real y_min))"
  using assms by (simp add: coord2pix_quad coord2pix_exact_def affine_value py_bind_Inr)

lemma pix2coord_value:
  assumes "num_real width \<noteq> 0" and "num_real height \<noteq> 0"
  shows "pix2coord x y (x_min, x_max, y_min, y_max) (width, height) origin =
           Inr (num_real x / num_real width * num_real (num_sub x_max x_min) + num_real x_min,
                if arg_or ''upper'' origin = ''lower''
                then num_real y / num_real height * num_real (num_sub y_max y_min) + num_real y_min
                else num_real y_max - num_real y / num_real height * num_real (num_sub y_max y_min))"
  using assms by (simp add: pix2coord_quad num_div_def py_bind_Inr)

lemma scale_cancel:
  fixes s d t :: real
  assumes "s \<noteq> 0" and "d \<noteq> 0"
  shows "s * t / d / s * d = t"
  using assms by simp

text \<open>The exceptions of the two functions and of \<open>km2pix\<close>.\<close>

lemma num_div_error: "num_div a b = Inl e \<Longrightarrow> e = ZeroDivisionError"
  by (simp add: num_div_def split: if_splits)

lemma py_bind_error:
  assumes "py_bind m f = Inl e"
  shows "m = Inl e \<or> (\<exists>v. m = Inr v \<and> f v = Inl e)"
  using assms by (cases m) (simp_all add: py_bind_def)

lemma coord2pix_error:
  assumes "coord2pix cx cy coord_lim imgdim origin = Inl e"
  shows "e = ZeroDivisionError"
  using assms unfolding coord2pix_def
  by (auto dest!: py_bind_error dest: num_div_error split: if_splits prod.splits)

lemma pix2coord_error:
  assumes "pix2coord x y coord_lim imgdim origin = Inl e"
  shows "e = ZeroDivisionError"
  using assms unfolding pix2coord_def
  by (auto dest!: py_bind_error dest: num_div_error split: if_splits prod.splits)

lemma km2pix_value:
  assumes "latextent \<noteq> 0" and "arg_or 1737.4 a \<noteq> 0"
  shows "km2pix imgheight latextent dc a =
           Inr (180 / pi * imgheight * arg_or 1 dc / latextent / arg_or 1737.4 a)"
  using assms by (simp add: km2pix_def py_div_def py_bind_Inr)

lemma km2pix_raises:
  assumes "latextent = 0 \<or> arg_or 1737.4 a = 0"
  shows "km2pix imgheight latextent dc a = Inl ZeroDivisionError"
  using assms by (auto simp add: km2pix_def py_div_def py_bind_Inr py_bind_Inl)

subsection \<open>The claims\<close>

text \<open>
  C1 (round-trip inverse), as stated: for all non-degenerate limits, positive
  dimensions and every \<open>cx\<close>, \<open>cy\<close>, the round trip returns \<open>(cx, cy)\<close>. With the
  integer arguments \<open>cx = 2^62\<close>, \<open>cy = 0\<close>, limits \<open>(0, 1, 0, 1)\<close> and dimensions
  \<open>(4, 1)\<close> the product \<open>4 * 2^62\<close> wraps to \<open>0\<close>: \<open>coord2pix\<close> returns \<open>(0, 1)\<close>, and
  \<open>pix2coord\<close> maps that to \<open>(0, 0)\<close>, not to \<open>(2^62, 0)\<close>.
\<close>

theorem roundtrip_inverse_counterexample:
  "coord2pix (PyInt (2 ^ 62)) (PyInt 0) (PyInt 0, PyInt 1, PyInt 0, PyInt 1) (PyInt 4, PyInt 1)
     (Some ''upper'') = Inr (0, 1)
   \<and> pix2coord (PyFloat 0) (PyFloat 1) (PyInt 0, PyInt 1, PyInt 0, PyInt 1) (PyInt 4, PyInt 1)
       (Some ''upper'') = Inr (0, 0)
   \<and> num_real (PyInt (2 ^ 62)) = 2 ^ 62"
  by (simp add: coord2pix_quad pix2coord_quad num_div_def py_bind_Inr arg_or_simps)

text \<open>
  C1, amended. For limits with \<open>x_min \<noteq> x_max\<close> and \<open>y_min \<noteq> y_max\<close>, positive width
  and height, every \<open>cx\<close>, \<open>cy\<close> and every origin argument (so for \<^verbatim>\<open>"upper"\<close> and for
  \<^verbatim>\<open>"lower"\<close>), provided no 64-bit subtraction or multiplication of the call of
  \<open>coord2pix\<close> overflows (none can on float arguments), \<open>coord2pix\<close> returns a pixel pair
  and \<open>pix2coord\<close> applied to it with the same limits, dimensions and origin returns
  exactly \<open>(cx, cy)\<close>, in exact arithmetic.
\<close>

theorem roundtrip_inverse:
  assumes "num_real x_min \<noteq> num_real x_max" and "num_real y_min \<noteq> num_real y_max"
    and "0 < num_real width" and "0 < num_real height"
    and "coord2pix_exact cx cy (x_min, x_max, y_min, y_max) (width, height) origin"
  shows "py_bind (coord2pix cx cy (x_min, x_max, y_min, y_max) (width, height) origin)
           (\<lambda>(x, y). pix2coord (PyFloat x) (PyFloat y)
                        (x_min, x_max, y_min, y_max) (width, height) origin) =
         Inr (num_real cx, num_real cy)"
proof -
  let ?L = "(x_min, x_max, y_min, y_max)" and ?D = "(width, height)"
  have w: "num_real width \<noteq> 0" and h: "num_real height \<noteq> 0"
    using assms(3,4) by simp_all
  have dx: "num_real x_max - num_real x_min \<noteq> 0" and dy: "num_real y_max - num_real y_min \<noteq> 0"
    using assms(1,2) by simp_all
  have sx: "num_real (num_sub x_max x_min) = num_real x_max - num_real x_min"
    using assms(5) by (simp add: coord2pix_exact_def affine_exact_def num_sub_exact)
  have sy: "num_real (num_sub y_max y_min) = num_real y_max - num_real y_min"
    using assms(5) by (simp add: coord2pix_exact_def affine_exact_def num_sub_exact split: if_splits)
  have x: "num_real width * (num_real cx - num_real x_min) / (num_real x_max - num_real x_min)
             / num_real width * (num_real x_max - num_real x_min) + num_real x_min = num_real cx"
    using scale_cancel [OF w dx, of "num_real cx - num_real x_min"] by simp
  have lo: "num_real height * (num_real cy - num_real y_min) / (num_real y_max - num_real y_min)
             / num_real height * (num_real y_max - num_real y_min) + num_real y_min = num_real cy"
    using scale_cancel [OF h dy, of "num_real cy - num_real y_min"] by simp
  have up: "num_real y_max
             - num_real height * (num_real y_max - num_real cy) / (num_real y_max - num_real y_min)
               / num_real height * (num_real y_max - num_real y_min) = num_real cy"
    using scale_cancel [OF h dy, of "num_real y_max - num_real cy"] by simp
  show ?thesis
  proof (cases "arg_or ''upper'' origin = ''lower''")
    case True
    show ?thesis
      by (simp only: coord2pix_lower [OF assms(1,2) True assms(5)] py_bind_Inr prod.case
            pix2coord_value [OF w h] num_real.simps sx sy True if_True x lo simp_thms)
  next
    case False
    show ?thesis
      by (simp only: coord2pix_upper [OF assms(1,2) False assms(5)] py_bind_Inr prod.case
            pix2coord_value [OF w h] num_real.simps sx sy False if_False x up simp_thms)
  qed
qed

theorem roundtrip_inverse_witness:
  "py_bind (coord2pix (PyInt 45) (PyFloat 30) (PyInt (-180), PyInt 180, PyInt (-90), PyInt 90)
              (PyInt 512, PyInt 256) (Some ''lower''))
     (\<lambda>(x, y). pix2coord (PyFloat x) (PyFloat y) (PyInt (-180), PyInt 180, PyInt (-90), PyInt 90)
                  (PyInt 512, PyInt 256) (Some ''lower'')) =
   Inr (45, 30)"
  using roundtrip_inverse [of "PyInt (-180)" "PyInt 180" "PyInt (-90)" "PyInt 90"
      "PyInt 512" "PyInt 256" "PyInt 45" "PyFloat 30" "Some ''lower''"]
  by (simp add: coord2pix_exact_def affine_exact_def fits_int64_def arg_or_simps)

text \<open>
  C2 (affine formula), as stated: for all non-degenerate limits and every \<open>cx\<close>, \<open>cy\<close>
  the returned \<open>x\<close> is \<open>width * (cx - x_min) / (x_max - x_min)\<close>. With the integer
  arguments \<open>cx = 2^62\<close>, limits \<open>(0, 1, 0, 1)\<close> and dimensions \<open>(4, 1)\<close> the call returns
  \<open>x = 0\<close>, where the formula gives \<open>2^64\<close>.
\<close>

theorem coord2pix_formula_counterexample:
  "coord2pix (PyInt (2 ^ 62)) (PyInt 0) (PyInt 0, PyInt 1, PyInt 0, PyInt 1) (PyInt 4, PyInt 1)
     (Some ''upper'') = Inr (0, 1)
   \<and> num_real (PyInt 4) * (num_real (PyInt (2 ^ 62)) - num_real (PyInt 0))
       / (num_real (PyInt 1) - num_real (PyInt 0)) = 2 ^ 64"
  by (simp add: coord2pix_quad num_div_def py_bind_Inr arg_or_simps)

text \<open>
  C2, amended. For limits with \<open>x_min \<noteq> x_max\<close> and \<open>y_min \<noteq> y_max\<close>, provided no 64-bit
  subtraction or multiplication of the call overflows (none can on float arguments),
  the returned \<open>x\<close> is \<open>width * (cx - x_min) / (x_max - x_min)\<close>; the returned \<open>y\<close> is
  \<open>height * (cy - y_min) / (y_max - y_min)\<close> for the origin \<^verbatim>\<open>"lower"\<close>, and
  \<open>height * (y_max - cy) / (y_max - y_min)\<close> for the origin \<^verbatim>\<open>"upper"\<close>, which is also
  the value of an omitted origin.
\<close>

theorem coord2pix_formula:
  assumes "num_real x_min \<noteq> num_real x_max" and "num_real y_min \<noteq> num_real y_max"
  shows "(coord2pix_exact cx cy (x_min, x_max, y_min, y_max) (width, height) (Some ''lower'') \<longrightarrow>
            coord2pix cx cy (x_min, x_max, y_min, y_max) (width, height) (Some ''lower'') =
              Inr (num_real width * (num_real cx - num_real x_min)
                     / (num_real x_max - num_real x_min),
                   num_real height * (num_real cy - num_real y_min)
                     / (num_real y_max - num_real y_min)))
       \<and> (coord2pix_exact cx cy (x_min, x_max, y_min, y_max) (width, height) (Some ''upper'') \<longrightarrow>
            coord2pix cx cy (x_min, x_max, y_min, y_max) (width, height) (Some ''upper'') =
              Inr (num_real width * (num_real cx - num_real x_min)
                     / (num_real x_max - num_real x_min),
                   num_real height * (num_real y_max - num_real cy)
                     / (num_real y_max - num_real y_min)))
       \<and> (coord2pix_exact cx cy (x_min, x_max, y_min, y_max) (width, height) None \<longrightarrow>
            coord2pix cx cy (x_min, x_max, y_min, y_max) (width, height) None =
              Inr (num_real width * (num_real cx - num_real x_min)
                     / (num_real x_max - num_real x_min),
                   num_real height * (num_real y_max - num_real cy)
                     / (num_real y_max - num_real y_min)))"
  using assms by (simp add: coord2pix_lower coord2pix_upper arg_or_simps)

theorem coord2pix_formula_witness:
  "coord2pix (PyInt 0) (PyInt 0) (PyInt (-180), PyInt 180, PyInt (-90), PyInt 90)
     (PyInt 512, PyInt 256) (Some ''upper'') = Inr (256, 128)
   \<and> coord2pix (PyFloat 90) (PyFloat 45) (PyInt (-180), PyInt 180, PyInt (-90), PyInt 90)
     (PyInt 512, PyInt 256) (Some ''lower'') = Inr (384, 192)
   \<and> coord2pix (PyFloat 90) (PyFloat 45) (PyFloat (-180), PyFloat 180, PyFloat (-90), PyFloat 90)
     (PyInt 512, PyInt 256) None = Inr (384, 64)"
  using coord2pix_formula [of "PyInt (-180)" "PyInt 180" "PyInt (-90)" "PyInt 90"
      "PyInt 0" "PyInt 0" "PyInt 512" "PyInt 256"]
    coord2pix_formula [of "PyInt (-180)" "PyInt 180" "PyInt (-90)" "PyInt 90"
      "PyFloat 90" "PyFloat 45" "PyInt 512" "PyInt 256"]
    coord2pix_formula [of "PyFloat (-180)" "PyFloat 180" "PyFloat (-90)" "PyFloat 90"
      "PyFloat 90" "PyFloat 45" "PyInt 512" "PyInt 256"]
  by (simp add: coord2pix_exact_def affine_exact_def fits_int64_def arg_or_simps)

text \<open>
  C3 (formula and defaults of \<open>km2pix\<close>). For nonzero \<open>latextent\<close> and nonzero \<open>a\<close>
  (the claim's positive \<open>imgheight\<close> and nonzero \<open>dc\<close> are not needed), \<open>km2pix\<close>
  returns exactly \<open>(180 / pi) * imgheight * dc / latextent / a\<close>; an omitted \<open>dc\<close> is
  \<open>1\<close> and an omitted \<open>a\<close> is \<open>1737.4\<close>.
\<close>

theorem km2pix_formula:
  assumes "latextent \<noteq> 0" and "a \<noteq> 0"
  shows "km2pix imgheight latextent (Some dc) (Some a) =
           Inr (180 / pi * imgheight * dc / latextent / a)
       \<and> km2pix imgheight latextent None (Some a) =
           km2pix imgheight latextent (Some 1) (Some a)
       \<and> km2pix imgheight latextent (Some dc) None =
           km2pix imgheight latextent (Some dc) (Some 1737.4)
       \<and> km2pix imgheight latextent None None =
           Inr (180 / pi * imgheight * 1 / latextent / 1737.4)"
  using assms by (simp add: km2pix_value arg_or_simps)

theorem km2pix_formula_witness:
  "(45 :: real) \<noteq> 0 \<and> (1737.4 :: real) \<noteq> 0
   \<and> km2pix 256 45 (Some 1) (Some 1737.4) = Inr (180 / pi * 256 * 1 / 45 / 1737.4)
   \<and> km2pix 256 45 None None = Inr (180 / pi * 256 * 1 / 45 / 1737.4)"
  using km2pix_formula [of 45 "1737.4" 256 1]
  by simp

text \<open>
  C5 (boundary corners), as stated: for all non-degenerate limits and all dimensions the
  corner \<open>(x_max, y_min)\<close> is the pixel \<open>(width, height)\<close>. With the integer limits
  \<open>(0, 2^62, 0, 1)\<close> and dimensions \<open>(4, 1)\<close> the product \<open>4 * 2^62\<close> wraps to \<open>0\<close> and the
  corner \<open>(2^62, 0)\<close> is the pixel \<open>(0, 1)\<close>, not \<open>(4, 1)\<close>.
\<close>

theorem boundary_corners_counterexample:
  "coord2pix (PyInt (2 ^ 62)) (PyInt 0) (PyInt 0, PyInt (2 ^ 62), PyInt 0, PyInt 1)
     (PyInt 4, PyInt 1) (Some ''upper'') = Inr (0, 1)
   \<and> num_real (PyInt 4) = 4"
  by (simp add: coord2pix_quad num_div_def py_bind_Inr arg_or_simps)

text \<open>
  C5, amended. For limits with \<open>x_min \<noteq> x_max\<close> and \<open>y_min \<noteq> y_max\<close> and any
  dimensions, with the origin \<^verbatim>\<open>"upper"\<close> the corner \<open>(x_min, y_max)\<close> is the pixel
  \<open>(0, 0)\<close>; and the corner \<open>(x_max, y_min)\<close> is the pixel \<open>(width, height)\<close> provided no
  64-bit subtraction or multiplication of that call overflows (none can on float
  arguments).
\<close>

theorem boundary_corners:
  assumes "num_real x_min \<noteq> num_real x_max" and "num_real y_min \<noteq> num_real y_max"
  shows "coord2pix x_min y_max (x_min, x_max, y_min, y_max) (width, height) (Some ''upper'') =
           Inr (0, 0)
       \<and> (coord2pix_exact x_max y_min (x_min, x_max, y_min, y_max) (width, height) (Some ''upper'')
            \<longrightarrow> coord2pix x_max y_min (x_min, x_max, y_min, y_max) (width, height) (Some ''upper'') =
                  Inr (num_real width, num_real height))"
proof (intro conjI impI)
  show "coord2pix x_min y_max (x_min, x_max, y_min, y_max) (width, height) (Some ''upper'') =
          Inr (0, 0)"
    using assms by (simp add: coord2pix_quad affine_zero py_bind_Inr arg_or_simps)
next
  assume "coord2pix_exact x_max y_min (x_min, x_max, y_min, y_max) (width, height) (Some ''upper'')"
  then show "coord2pix x_max y_min (x_min, x_max, y_min, y_max) (width, height) (Some ''upper'') =
               Inr (num_real width, num_real height)"
    using assms by (simp add: coord2pix_upper arg_or_simps)
qed

theorem boundary_corners_witness:
  "coord2pix (PyInt (-180)) (PyInt 90) (PyInt (-180), PyInt 180, PyInt (-90), PyInt 90)
     (PyInt 512, PyInt 256) (Some ''upper'') = Inr (0, 0)
   \<and> coord2pix (PyInt 180) (PyInt (-90)) (PyInt (-180), PyInt 180, PyInt (-90), PyInt 90)
     (PyInt 512, PyInt 256) (Some ''upper'') = Inr (512, 256)"
  using boundary_corners [of "PyInt (-180)" "PyInt 180" "PyInt (-90)" "PyInt 90"
      "PyInt 512" "PyInt 256"]
  by (simp add: coord2pix_exact_def affine_exact_def fits_int64_def arg_or_simps)

text \<open>
  C6 (origin symmetry), as stated: for all non-degenerate limits, all dimensions and
  every \<open>cx\<close>, \<open>cy\<close> the two \<open>y\<close> add up to \<open>height\<close>. With the integer arguments
  \<open>cy = 0\<close>, limits \<open>(0, 1, 0, 2^62)\<close> and dimensions \<open>(1, 4)\<close> the product \<open>4 * 2^62\<close>
  of the upper branch wraps to \<open>0\<close>: both origins return \<open>y = 0\<close>, and \<open>0 + 0\<close> is not
  \<open>4\<close>.
\<close>

theorem origin_symmetry_counterexample:
  "coord2pix (PyInt 0) (PyInt 0) (PyInt 0, PyInt 1, PyInt 0, PyInt (2 ^ 62)) (PyInt 1, PyInt 4)
     (Some ''upper'') = Inr (0, 0)
   \<and> coord2pix (PyInt 0) (PyInt 0) (PyInt 0, PyInt 1, PyInt 0, PyInt (2 ^ 62)) (PyInt 1, PyInt 4)
     (Some ''lower'') = Inr (0, 0)
   \<and> num_real (PyInt 4) = 4"
  by (simp add: coord2pix_quad num_div_def py_bind_Inr arg_or_simps)

text \<open>
  C6, amended. For limits with \<open>x_min \<noteq> x_max\<close> and \<open>y_min \<noteq> y_max\<close>, every \<open>cx\<close>,
  \<open>cy\<close> and any dimensions, provided no 64-bit subtraction or multiplication of the
  two calls overflows (none can on float arguments), both origins return a pixel pair
  with the same \<open>x\<close>, and the \<open>y\<close> of the origin \<^verbatim>\<open>"upper"\<close> plus the \<open>y\<close> of the origin
  \<^verbatim>\<open>"lower"\<close> is \<open>height\<close>.
\<close>

theorem origin_symmetry:
  assumes "num_real x_min \<noteq> num_real x_max" and "num_real y_min \<noteq> num_real y_max"
    and "coord2pix_exact cx cy (x_min, x_max, y_min, y_max) (width, height) (Some ''upper'')"
    and "coord2pix_exact cx cy (x_min, x_max, y_min, y_max) (width, height) (Some ''lower'')"
  shows "\<exists>x y_upper y_lower.
           coord2pix cx cy (x_min, x_max, y_min, y_max) (width, height) (Some ''upper'') =
             Inr (x, y_upper)
         \<and> coord2pix cx cy (x_min, x_max, y_min, y_max) (width, height) (Some ''lower'') =
             Inr (x, y_lower)
         \<and> y_upper + y_lower = num_real height"
proof -
  let ?h = "num_real height" and ?d = "num_real y_max - num_real y_min"
  have d: "?d \<noteq> 0"
    using assms by simp
  have "?h * (num_real y_max - num_real cy) / ?d + ?h * (num_real cy - num_real y_min) / ?d =
          ?h * ?d / ?d"
    by (simp add: add_divide_distrib [symmetric] distrib_left [symmetric])
  also have "\<dots> = ?h"
    using d by simp
  finally show ?thesis
    using assms by (simp add: coord2pix_upper coord2pix_lower arg_or_simps)
qed

theorem origin_symmetry_witness:
  "\<exists>x y_upper y_lower.
     coord2pix (PyInt 90) (PyInt 45) (PyInt (-180), PyInt 180, PyInt (-90), PyInt 90)
       (PyInt 512, PyInt 256) (Some ''upper'') = Inr (x, y_upper)
   \<and> coord2pix (PyInt 90) (PyInt 45) (PyInt (-180), PyInt 180, PyInt (-90), PyInt 90)
       (PyInt 512, PyInt 256) (Some ''lower'') = Inr (x, y_lower)
   \<and> y_upper + y_lower = 256"
  using origin_symmetry [of "PyInt (-180)" "PyInt 180" "PyInt (-90)" "PyInt 90"
      "PyInt 90" "PyInt 45" "PyInt 512" "PyInt 256"]
  by (simp add: coord2pix_exact_def affine_exact_def fits_int64_def arg_or_simps)

text \<open>
  C7 (homogeneity in the image height). For every \<open>h\<close>, every nonzero \<open>e\<close> and every
  \<open>a\<close>, the call \<open>km2pix(2 * h, e, 1, a)\<close> behaves as the expression
  \<open>2 * km2pix(h, e, 1, a)\<close>: for nonzero \<open>a\<close> both are values and the first is twice
  the value of \<open>km2pix(h, e, 1, a)\<close>; for \<open>a = 0\<close> both raise the same
  \<^verbatim>\<open>ZeroDivisionError\<close>.
\<close>

theorem km2pix_homogeneous:
  assumes "e \<noteq> 0"
  shows "km2pix (2 * h) e (Some 1) (Some a) =
           py_bind (km2pix h e (Some 1) (Some a)) (\<lambda>k. Inr (2 * k))
       \<and> (a \<noteq> 0 \<longrightarrow>
            (\<exists>k. km2pix h e (Some 1) (Some a) = Inr k
               \<and> km2pix (2 * h) e (Some 1) (Some a) = Inr (2 * k)))"
proof (cases "a = 0")
  case True
  then show ?thesis
    by (simp add: km2pix_raises arg_or_simps py_bind_Inl)
next
  case False
  with assms show ?thesis
    by (simp add: km2pix_value arg_or_simps py_bind_Inr)
qed

theorem km2pix_homogeneous_witness:
  "(45 :: real) \<noteq> 0 \<and> (1737.4 :: real) \<noteq> 0
   \<and> (\<exists>k. km2pix 256 45 (Some 1) (Some 1737.4) = Inr k
         \<and> km2pix (2 * 256) 45 (Some 1) (Some 1737.4) = Inr (2 * k))"
proof -
  have e: "(45 :: real) \<noteq> 0" and a: "(1737.4 :: real) \<noteq> 0"
    by simp_all
  show ?thesis
    using e a km2pix_homogeneous [OF e, of 256 "1737.4"] by blast
qed

text \<open>
  C10 (origin fallback). The origin is compared with the string \<^verbatim>\<open>"lower"\<close> only. For
  every origin string other than \<^verbatim>\<open>"lower"\<close>, on any limits and dimensions:
  \<open>coord2pix\<close> computes \<open>width * (cx - x_min) / (x_max - x_min)\<close> and the upper-origin
  \<open>height * (y_max - cy) / (y_max - y_min)\<close>, and \<open>pix2coord\<close> computes
  \<open>(x / width) * (x_max - x_min) + x_min\<close> and the upper-origin
  \<open>y_max - (y / height) * (y_max - y_min)\<close>, each in the operations of the compiled
  function (first two conjuncts) and so, where nothing overflows and no divisor is
  zero, in exact arithmetic (next two); the result is that of the origin \<^verbatim>\<open>"upper"\<close>,
  which is also that of the omitted origin; and neither function raises \<^verbatim>\<open>ValueError\<close>.
\<close>

theorem origin_fallback:
  assumes "origin \<noteq> ''lower''"
  shows "coord2pix cx cy (x_min, x_max, y_min, y_max) (width, height) (Some origin) =
           py_bind (num_div (num_mul width (num_sub cx x_min)) (num_sub x_max x_min)) (\<lambda>px.
           py_bind (num_div (num_mul height (num_sub y_max cy)) (num_sub y_max y_min)) (\<lambda>py.
           Inr (px, py)))
       \<and> pix2coord x y (x_min, x_max, y_min, y_max) (width, height) (Some origin) =
           py_bind (num_div x width) (\<lambda>qx.
           py_bind (num_div y height) (\<lambda>qy.
           Inr (qx * num_real (num_sub x_max x_min) + num_real x_min,
                num_real y_max - qy * num_real (num_sub y_max y_min))))
       \<and> (num_real x_min \<noteq> num_real x_max \<and> num_real y_min \<noteq> num_real y_max
            \<and> coord2pix_exact cx cy (x_min, x_max, y_min, y_max) (width, height) (Some origin) \<longrightarrow>
            coord2pix cx cy (x_min, x_max, y_min, y_max) (width, height) (Some origin) =
              Inr (num_real width * (num_real cx - num_real x_min)
                     / (num_real x_max - num_real x_min),
                   num_real height * (num_real y_max - num_real cy)
                     / (num_real y_max - num_real y_min)))
       \<and> (num_real width \<noteq> 0 \<and> num_real height \<noteq> 0
            \<and> sub_exact x_max x_min \<and> sub_exact y_max y_min \<longrightarrow>
            pix2coord x y (x_min, x_max, y_min, y_max) (width, height) (Some origin) =
              Inr (num_real x / num_real width * (num_real x_max - num_real x_min)
                     + num_real x_min,
                   num_real y_max
                     - num_real y / num_real height * (num_real y_max - num_real y_min)))
       \<and> coord2pix cx cy (x_min, x_max, y_min, y_max) (width, height) (Some origin) =
           coord2pix cx cy (x_min, x_max, y_min, y_max) (width, height) (Some ''upper'')
       \<and> pix2coord x y (x_min, x_max, y_min, y_max) (width, height) (Some origin) =
           pix2coord x y (x_min, x_max, y_min, y_max) (width, height) (Some ''upper'')
       \<and> coord2pix cx cy (x_min, x_max, y_min, y_max) (width, height) None =
           coord2pix cx cy (x_min, x_max, y_min, y_max) (width, height) (Some ''upper'')
       \<and> pix2coord x y (x_min, x_max, y_min, y_max) (width, height) None =
           pix2coord x y (x_min, x_max, y_min, y_max) (width, height) (Some ''upper'')
       \<and> coord2pix cx cy (x_min, x_max, y_min, y_max) (width, height) (Some origin) \<noteq>
           Inl ValueError
       \<and> pix2coord x y (x_min, x_max, y_min, y_max) (width, height) (Some origin) \<noteq>
           Inl ValueError"
proof -
  let ?L = "(x_min, x_max, y_min, y_max)" and ?D = "(width, height)"
  have a: "arg_or ''upper'' (Some origin) \<noteq> ''lower''"
    using assms by (simp add: arg_or_simps)
  have c: "coord2pix cx cy ?L ?D (Some origin) \<noteq> Inl ValueError"
    using coord2pix_error [of cx cy ?L ?D "Some origin" ValueError] by auto
  have p: "pix2coord x y ?L ?D (Some origin) \<noteq> Inl ValueError"
    using pix2coord_error [of x y ?L ?D "Some origin" ValueError] by auto
  have f: "coord2pix cx cy ?L ?D (Some origin) =
              Inr (num_real width * (num_real cx - num_real x_min)
                     / (num_real x_max - num_real x_min),
                   num_real height * (num_real y_max - num_real cy)
                     / (num_real y_max - num_real y_min))"
    if "num_real x_min \<noteq> num_real x_max" and "num_real y_min \<noteq> num_real y_max"
      and "coord2pix_exact cx cy ?L ?D (Some origin)"
    using coord2pix_upper [OF that(1,2) a that(3)] .
  have g: "pix2coord x y ?L ?D (Some origin) =
              Inr (num_real x / num_real width * (num_real x_max - num_real x_min)
                     + num_real x_min,
                   num_real y_max
                     - num_real y / num_real height * (num_real y_max - num_real y_min))"
    if "num_real width \<noteq> 0" and "num_real height \<noteq> 0"
      and "sub_exact x_max x_min" and "sub_exact y_max y_min"
    using a that by (simp add: pix2coord_value num_sub_exact)
  have q: "coord2pix cx cy ?L ?D (Some origin) =
             py_bind (num_div (num_mul width (num_sub cx x_min)) (num_sub x_max x_min)) (\<lambda>px.
             py_bind (num_div (num_mul height (num_sub y_max cy)) (num_sub y_max y_min)) (\<lambda>py.
             Inr (px, py)))"
    using a by (simp add: coord2pix_quad)
  have r: "pix2coord x y ?L ?D (Some origin) =
             py_bind (num_div x width) (\<lambda>qx.
             py_bind (num_div y height) (\<lambda>qy.
             Inr (qx * num_real (num_sub x_max x_min) + num_real x_min,
                  num_real y_max - qy * num_real (num_sub y_max y_min))))"
    using a by (simp add: pix2coord_quad)
  have u: "coord2pix cx cy ?L ?D (Some origin) = coord2pix cx cy ?L ?D (Some ''upper'')"
    "coord2pix cx cy ?L ?D None = coord2pix cx cy ?L ?D (Some ''upper'')"
    using a by (simp_all add: coord2pix_quad arg_or_simps)
  have v: "pix2coord x y ?L ?D (Some origin) = pix2coord x y ?L ?D (Some ''upper'')"
    "pix2coord x y ?L ?D None = pix2coord x y ?L ?D (Some ''upper'')"
    using a by (simp_all add: pix2coord_quad arg_or_simps)
  from q r f g u v c p show ?thesis
    by blast
qed

theorem origin_fallback_witness:
  "''Lower'' \<noteq> ''lower''
   \<and> coord2pix (PyInt 90) (PyInt 45) (PyInt (-180), PyInt 180, PyInt (-90), PyInt 90)
       (PyInt 512, PyInt 256) (Some ''Lower'') = Inr (384, 64)
   \<and> pix2coord (PyInt 384) (PyInt 64) (PyInt (-180), PyInt 180, PyInt (-90), PyInt 90)
       (PyInt 512, PyInt 256) (Some ''Lower'') = Inr (90, 45)"
  using origin_fallback [of "''Lower''" "PyInt 90" "PyInt 45" "PyInt (-180)" "PyInt 180"
      "PyInt (-90)" "PyInt 90" "PyInt 512" "PyInt 256" "PyInt 384" "PyInt 64"]
  by (simp add: coord2pix_exact_def affine_exact_def fits_int64_def arg_or_simps num_div_def
        py_bind_Inr)

text \<open>
  C4 (degenerate ranges), as stated: no fault is raised when \<open>x_min = x_max\<close> or
  \<open>y_min = y_max\<close> or \<open>latextent = 0\<close>, and the division by zero shows as an infinite
  or undefined result. The scalar calls below refute it: \<open>coord2pix\<close> and \<open>km2pix\<close>
  raise \<^verbatim>\<open>ZeroDivisionError\<close>, and \<open>pix2coord\<close>, which never divides by the range,
  returns an ordinary pair.
\<close>

theorem degenerate_range_counterexample:
  "coord2pix (PyInt 0) (PyInt 0) (PyInt 0, PyInt 0, PyInt 0, PyInt 1) (PyInt 1, PyInt 1)
     (Some ''upper'') = Inl ZeroDivisionError
   \<and> coord2pix (PyFloat 0) (PyFloat 0) (PyFloat 0, PyFloat 1, PyFloat 0, PyFloat 0)
       (PyInt 1, PyInt 1) (Some ''upper'') = Inl ZeroDivisionError
   \<and> km2pix 1 0 None None = Inl ZeroDivisionError
   \<and> pix2coord (PyInt 1) (PyInt 1) (PyInt 0, PyInt 0, PyInt 0, PyInt 1) (PyInt 1, PyInt 1)
       (Some ''upper'') = Inr (0, 0)"
  by (simp add: coord2pix_quad pix2coord_quad km2pix_def num_div_def py_div_def py_bind_Inr
        py_bind_Inl arg_or_simps)

text \<open>
  C4, amended. When \<open>x_min = x_max\<close> or \<open>y_min = y_max\<close>, a scalar call of \<open>coord2pix\<close>
  raises \<^verbatim>\<open>ZeroDivisionError\<close>, and so does \<open>km2pix\<close> when \<open>latextent = 0\<close>; nothing
  guards or recovers the division. \<open>pix2coord\<close> does not divide by the coordinate range:
  with nonzero width and height it returns a pair on any limits, with \<open>cx = x_min\<close> when
  \<open>x_min = x_max\<close> and \<open>cy = y_max\<close> when \<open>y_min = y_max\<close>.
\<close>

theorem degenerate_range_raises:
  "(num_real x_min = num_real x_max \<or> num_real y_min = num_real y_max \<longrightarrow>
      coord2pix cx cy (x_min, x_max, y_min, y_max) (width, height) origin =
        Inl ZeroDivisionError)
   \<and> km2pix imgheight 0 dc a = Inl ZeroDivisionError
   \<and> (num_real width \<noteq> 0 \<and> num_real height \<noteq> 0 \<longrightarrow>
        (\<exists>cx' cy'. pix2coord x y (x_min, x_max, y_min, y_max) (width, height) origin =
                     Inr (cx', cy')
                 \<and> (num_real x_min = num_real x_max \<longrightarrow> cx' = num_real x_min)
                 \<and> (num_real y_min = num_real y_max \<longrightarrow> cy' = num_real y_max)))"
proof (intro conjI impI)
  assume deg: "num_real x_min = num_real x_max \<or> num_real y_min = num_real y_max"
  show "coord2pix cx cy (x_min, x_max, y_min, y_max) (width, height) origin =
          Inl ZeroDivisionError"
  proof (cases "num_real x_min = num_real x_max")
    case True
    then show ?thesis
      by (simp add: coord2pix_quad affine_raises py_bind_Inl)
  next
    case False
    with deg have y: "num_real y_min = num_real y_max"
      by simp
    obtain v where "num_div (num_mul width (num_sub cx x_min)) (num_sub x_max x_min) = Inr v"
      using num_div_nonzero [OF False] by blast
    with y show ?thesis
      by (simp add: coord2pix_quad affine_raises py_bind_Inr py_bind_Inl)
  qed
next
  show "km2pix imgheight 0 dc a = Inl ZeroDivisionError"
    by (simp add: km2pix_raises)
next
  assume nz: "num_real width \<noteq> 0 \<and> num_real height \<noteq> 0"
  have z: "num_real (num_sub hi lo) = 0" if "num_real lo = num_real hi" for lo hi
    using that by (simp add: num_sub_zero_iff)
  show "\<exists>cx' cy'. pix2coord x y (x_min, x_max, y_min, y_max) (width, height) origin =
                     Inr (cx', cy')
                 \<and> (num_real x_min = num_real x_max \<longrightarrow> cx' = num_real x_min)
                 \<and> (num_real y_min = num_real y_max \<longrightarrow> cy' = num_real y_max)"
    using nz by (auto simp add: pix2coord_value z)
qed

theorem degenerate_range_raises_witness:
  "coord2pix (PyInt 10) (PyInt 20) (PyInt 5, PyInt 5, PyInt (-90), PyInt 90) (PyInt 512, PyInt 256)
     (Some ''lower'') = Inl ZeroDivisionError
   \<and> km2pix 256 0 (Some 1) (Some 1737.4) = Inl ZeroDivisionError
   \<and> (\<exists>cx' cy'. pix2coord (PyInt 100) (PyInt 50) (PyInt 5, PyInt 5, PyFloat 7, PyFloat 7)
                  (PyInt 512, PyInt 256) None = Inr (cx', cy') \<and> cx' = 5 \<and> cy' = 7)"
  using degenerate_range_raises [of "PyInt 5" "PyInt 5" "PyInt (-90)" "PyInt 90" "PyInt 10" "PyInt 20"
       "PyInt 512" "PyInt 256" "Some ''lower''" 256 "Some 1" "Some 1737.4"]
     degenerate_range_raises [of "PyInt 5" "PyInt 5" "PyFloat 7" "PyFloat 7" "PyInt 10" "PyInt 20"
       "PyInt 512" "PyInt 256" None 256 "Some 1" "Some 1737.4" "PyInt 100" "PyInt 50"]
  by simp

section \<open>Properties of the dataset\<close>

subsection \<open>The loop over the manifest\<close>

text \<open>One round of the loop, for a record that yields an index and tests that answer.\<close>

lemma scan_info_Cons:
  assumes "record_index host element = Inr index" and "tests_return host root_path index"
  shows "scan_info host root_path (element # rest) acc =
           scan_info host root_path rest
             (if both_exist host root_path index then insert (pair_of root_path index) acc else acc)"
proof -
  from assms(2) consider
      (absent) "is_file host (image_path root_path index) = Inr False"
    | (present) m where "is_file host (image_path root_path index) = Inr True"
        and "is_file host (mask_path root_path index) = Inr m"
    by (cases "is_file host (mask_path root_path index)") (auto simp add: tests_return_def)
  then show ?thesis
  proof cases
    case absent
    with assms(1) show ?thesis
      by (simp add: py_bind_Inr both_exist_def Let_def)
  next
    case present
    with assms(1) show ?thesis
      by (simp add: py_bind_Inr both_exist_def pair_of_def Let_def)
  qed
qed


subsection \<open>Different indices give different paths\<close>









subsection \<open>The constructor\<close>


text \<open>
  Every exception of the constructor is the failed assertion on the manifest, an
  exception of loading it, the exception of a record whose name yields no index, or
  the exception of a test \<^verbatim>\<open>is_file()\<close>; a file that is simply missing raises nothing.
\<close>

lemma scan_info_error:
  "scan_info host root_path info acc = Inl e \<Longrightarrow>
   (\<exists>element \<in> set info. record_index host element = Inl e)
   \<or> (\<exists>p. is_file host p = Inl e)"
proof (induction info arbitrary: acc)
  case Nil
  then show ?case by simp
next
  case (Cons element info)
  show ?case
  proof (cases "record_index host element")
    case (Inl e')
    with Cons.prems show ?thesis
      by (simp add: py_bind_Inl)
  next
    case index: (Inr index)
    show ?thesis
    proof (cases "is_file host (image_path root_path index)")
      case (Inl e')
      with Cons.prems index have "e' = e"
        by (simp add: py_bind_Inr py_bind_Inl)
      with Inl show ?thesis
        by blast
    next
      case image: (Inr image_is_file)
      show ?thesis
      proof (cases "image_is_file \<and> isl (is_file host (mask_path root_path index))")
        case True
        then obtain e' where m: "is_file host (mask_path root_path index) = Inl e'"
          by (cases "is_file host (mask_path root_path index)") simp_all
        with Cons.prems index image True have "e' = e"
          by (simp add: py_bind_Inr py_bind_Inl)
        with m show ?thesis
          by blast
      next
        case False
        then have "tests_return host root_path index"
          using image by (cases image_is_file) (simp_all add: tests_return_def)
        with Cons.prems index have
          "scan_info host root_path info
             (if both_exist host root_path index then insert (pair_of root_path index) acc
              else acc) = Inl e"
          by (simp only: scan_info_Cons)
        from Cons.IH [OF this] show ?thesis
          by auto
      qed
    qed
  qed
qed

lemma MoonCrater_init_error:
  assumes "MoonCrater_init host root_path transform image_size = Inl e"
  shows "(is_file host (path_join root_path ''data_rec.json'') = Inr False \<and> e = AssertionError)
       \<or> load_info host (path_join root_path ''data_rec.json'') = Inl e
       \<or> (\<exists>info. load_info host (path_join root_path ''data_rec.json'') = Inr info
              \<and> (\<exists>element \<in> set info. record_index host element = Inl e))
       \<or> (\<exists>p. is_file host p = Inl e)"
proof (cases "is_file host (path_join root_path ''data_rec.json'')")
  case (Inl e')
  with assms have "e' = e"
    by (simp add: MoonCrater_init_def py_bind_Inl)
  with Inl show ?thesis
    by blast
next
  case found: (Inr found)
  show ?thesis
  proof (cases found)
    case False
    with assms found show ?thesis
      by (simp add: MoonCrater_init_def py_bind_Inr)
  next
    case True
    show ?thesis
    proof (cases "load_info host (path_join root_path ''data_rec.json'')")
      case (Inl e')
      with assms found True show ?thesis
        by (simp add: MoonCrater_init_def py_bind_Inr py_bind_Inl)
    next
      case (Inr info)
      with assms found True have "scan_info host root_path info {} = Inl e"
        by (cases "scan_info host root_path info {}")
          (simp_all add: MoonCrater_init_def py_bind_def)
      from scan_info_error [OF this] Inr show ?thesis
        by blast
    qed
  qed
qed




subsection \<open>The claims\<close>

text \<open>
  C8 (manifest fail-fast). Whenever \<^verbatim>\<open>root/data_rec.json\<close> is not found to be an existing
  file, the constructor raises, whatever its other arguments and whatever else exists,
  and no dataset object is produced: the \<^verbatim>\<open>AssertionError\<close> of its \<^verbatim>\<open>assert\<close> when the test
  answers that it is no file, and the exception of the test when the test itself fails.
\<close>

theorem manifest_fail_fast:
  assumes "is_file host (path_join root_path ''data_rec.json'') \<noteq> Inr True"
  shows "MoonCrater_init host root_path transform image_size =
           Inl (case is_file host (path_join root_path ''data_rec.json'') of
                  Inl e \<Rightarrow> e | Inr found \<Rightarrow> AssertionError)"
proof (cases "is_file host (path_join root_path ''data_rec.json'')")
  case (Inl e)
  then show ?thesis
    by (simp add: MoonCrater_init_def py_bind_Inl)
next
  case (Inr found)
  with assms have "\<not> found"
    by simp
  with Inr show ?thesis
    by (simp add: MoonCrater_init_def py_bind_Inr)
qed

theorem manifest_fail_fast_witness:
  "is_file example_host (path_join [''void''] ''data_rec.json'') = Inr False
   \<and> MoonCrater_init example_host [''void''] (None :: unit option) None = Inl AssertionError
   \<and> is_file example_host (path_join [''locked''] ''data_rec.json'') = Inl OSError
   \<and> MoonCrater_init example_host [''locked''] (None :: unit option) None = Inl OSError"
proof -
  have a: "is_file example_host (path_join [''void''] ''data_rec.json'') = Inr False"
    by (simp add: example_host_def path_join_def)
  have b: "is_file example_host (path_join [''locked''] ''data_rec.json'') = Inl OSError"
    by (simp add: example_host_def path_join_def)
  show ?thesis
    using a b manifest_fail_fast [of example_host "[''void'']" "None :: unit option" None]
      manifest_fail_fast [of example_host "[''locked'']" "None :: unit option" None]
    by simp
qed




end
